theory Spec2Isabelle
  imports Complex_Main "HOL-Library.Multiset"
begin

section \<open>Line intersection of GeoJSON lines (turf-line-intersect)\<close>

text \<open>
  A shallow embedding of \<^verbatim>\<open>packages/turf-line-intersect/index.js\<close>: the exact
  test \<^verbatim>\<open>intersects\<close>, the segment extractor \<^verbatim>\<open>lineTree\<close>, the diagnostic helper
  \<^verbatim>\<open>createPolygonsFromTree\<close> and the top-level \<^verbatim>\<open>lineIntersect\<close>.
\<close>

subsection \<open>Numbers\<close>

text \<open>
  A JavaScript number that is finite is a binary64 value, hence a rational. Every
  arithmetic operation of the source (\<^verbatim>\<open>-\<close>, \<^verbatim>\<open>*\<close>, \<^verbatim>\<open>/\<close>, \<^verbatim>\<open>+\<close>) is the exact
  operation followed by a rounding \<open>fl\<close>, which the model takes as a parameter:
  \<open>fl = id\<close> is exact arithmetic, \<open>fl = binary64\<close> is round-to-nearest-even to a
  53-bit significand. Comparisons (\<^verbatim>\<open>===\<close>, \<^verbatim>\<open><\<close>, \<^verbatim>\<open>>=\<close>) are exact in both. Overflow to an
  infinity, NaN, the sign of zero and subnormal numbers are outside the model.
\<close>

type_synonym num = rat

definition fsub :: "(num \<Rightarrow> num) \<Rightarrow> num \<Rightarrow> num \<Rightarrow> num" where
  "fsub fl a b = fl (a - b)"

definition fmul :: "(num \<Rightarrow> num) \<Rightarrow> num \<Rightarrow> num \<Rightarrow> num" where
  "fmul fl a b = fl (a * b)"

definition fdiv :: "(num \<Rightarrow> num) \<Rightarrow> num \<Rightarrow> num \<Rightarrow> num" where
  "fdiv fl a b = fl (a / b)"

definition fadd :: "(num \<Rightarrow> num) \<Rightarrow> num \<Rightarrow> num \<Rightarrow> num" where
  "fadd fl a b = fl (a + b)"

definition round_half_even :: "rat \<Rightarrow> int" where
  "round_half_even x =
     (let f = \<lfloor>x\<rfloor>; d = x - of_int f
      in if d < 1 / 2 then f else if 1 / 2 < d then f + 1 else if even f then f else f + 1)"

definition scale2 :: "rat \<Rightarrow> int \<Rightarrow> rat" where
  "scale2 m e = (if 0 \<le> e then m * 2 ^ nat e else m / 2 ^ nat (- e))"

function ilog2 :: "int \<Rightarrow> int" where
  "ilog2 n = (if n \<le> 1 then 0 else 1 + ilog2 (n div 2))"
  by pat_completeness auto
termination
  by (relation "measure nat") auto

declare ilog2.simps [simp del]

text \<open>
  The binary64 rounding of a rational in the normal range: the value is scaled to a
  significand in \<open>[2^52, 2^53)\<close>, rounded to an integer with ties to even, and scaled
  back. (For \<open>p / q\<close> the first guess of the exponent is off by at most one.)
\<close>

definition binary64 :: "rat \<Rightarrow> rat" where
  "binary64 x =
     (if x = 0 then 0
      else let (p, q) = quotient_of \<bar>x\<bar>;
               e0 = ilog2 p - ilog2 q - 53;
               e = (if 2 ^ 53 \<le> scale2 \<bar>x\<bar> (- e0) then e0 + 1 else e0)
           in sgn x * scale2 (of_int (round_half_even (scale2 \<bar>x\<bar> (- e)))) e)"

subsection \<open>GeoJSON data\<close>

text \<open>
  A position is the array \<^verbatim>\<open>[x, y]\<close>; the source reads the members \<^verbatim>\<open>[0]\<close> and \<^verbatim>\<open>[1]\<close>
  only. A feature has a \<^verbatim>\<open>properties\<close> object and a \<^verbatim>\<open>geometry\<close> object, as the
  documented parameter type \<^verbatim>\<open>Feature<LineString|MultiLineString>\<close> and the constructors
  of \<^verbatim>\<open>@turf/helpers\<close> have them; the \<^verbatim>\<open>null\<close> members that GeoJSON also allows are not
  modelled.
\<close>

type_synonym position = "num \<times> num"

datatype geometry =
    Point position
  | MultiPoint "position list"
  | LineString "position list"
  | MultiLineString "position list list"
  | Polygon "position list list"
  | MultiPolygon "position list list list"
  | GeometryCollection "geometry list"

datatype json = JString string | JNumber num

record feature =
  properties :: "string \<rightharpoonup> json"
  geometry :: geometry

text \<open>
  \<^verbatim>\<open>FeatureCollection|Feature\<close>: what the top-level operation and \<^verbatim>\<open>featureEach\<close> take.
  The \<^verbatim>\<open>features\<close> member of a collection is an array of features, or, in \<open>Wrapped\<close>, a
  collection object put where the array belongs.
\<close>

datatype 'f layer = Feature 'f | FeatureCollection "'f list" | Wrapped "'f layer"

datatype which_line = Line1 | Line2

text \<open>
  The two \<^verbatim>\<open>throw new Error(...)\<close> sites of the source:
  \<^verbatim>\<open><lineTree> geometry must be a LineString\<close> and
  \<^verbatim>\<open><intersects> line1|line2 must only contain 2 coordinates\<close>.
\<close>

datatype error = InvalidGeometryType | InvalidSegmentLength which_line

text \<open>
  Modelled from the spec: \<^verbatim>\<open>helpers.point\<close> and \<^verbatim>\<open>helpers.lineString\<close> of the
  dependency \<^verbatim>\<open>@turf/helpers\<close> ("given raw coordinates, produce a well-formed geometry
  Feature"), with an empty \<^verbatim>\<open>properties\<close> object. A two-point segment feature built by
  \<^verbatim>\<open>helpers.lineString\<close> is represented by its \<^verbatim>\<open>geometry.coordinates\<close> array, the only
  member the source reads from it.
\<close>

definition point :: "position \<Rightarrow> feature" where
  "point c = \<lparr>properties = Map.empty, geometry = Point c\<rparr>"

type_synonym lineSegment = "position list"

definition lineString :: "position list \<Rightarrow> lineSegment" where
  "lineString cs = cs"

subsection \<open>The exact intersection test\<close>

definition intersects :: "(num \<Rightarrow> num) \<Rightarrow> lineSegment \<Rightarrow> lineSegment \<Rightarrow> error + feature option" where
  "intersects fl line1 line2 =
     (if length line1 \<noteq> 2 then Inl (InvalidSegmentLength Line1)
      else if length line2 \<noteq> 2 then Inl (InvalidSegmentLength Line2)
      else
        let x1 = fst (line1 ! 0); y1 = snd (line1 ! 0);
            x2 = fst (line1 ! 1); y2 = snd (line1 ! 1);
            x3 = fst (line2 ! 0); y3 = snd (line2 ! 0);
            x4 = fst (line2 ! 1); y4 = snd (line2 ! 1);
            denom = fsub fl (fmul fl (fsub fl y4 y3) (fsub fl x2 x1))
                            (fmul fl (fsub fl x4 x3) (fsub fl y2 y1));
            numeA = fsub fl (fmul fl (fsub fl x4 x3) (fsub fl y1 y3))
                            (fmul fl (fsub fl y4 y3) (fsub fl x1 x3));
            numeB = fsub fl (fmul fl (fsub fl x2 x1) (fsub fl y1 y3))
                            (fmul fl (fsub fl y2 y1) (fsub fl x1 x3))
        in if denom = 0 then (if numeA = 0 \<and> numeB = 0 then Inr None else Inr None)
           else
             let uA = fdiv fl numeA denom;
                 uB = fdiv fl numeB denom
             in if 0 \<le> uA \<and> uA \<le> 1 \<and> 0 \<le> uB \<and> uB \<le> 1
                then let x = fadd fl x1 (fmul fl uA (fsub fl x2 x1));
                         y = fadd fl y1 (fmul fl uA (fsub fl y2 y1))
                     in Inr (Some (point (x, y)))
                else Inr None)"

text \<open>
  The quantities of the parametric formula as the specification writes them, for the
  segments \<open>(x1,y1)-(x2,y2)\<close> and \<open>(x3,y3)-(x4,y4)\<close>, in the arithmetic \<open>fl\<close>.
\<close>

definition spec_denom :: "(num \<Rightarrow> num) \<Rightarrow> position \<Rightarrow> position \<Rightarrow> position \<Rightarrow> position \<Rightarrow> num" where
  "spec_denom fl p1 p2 p3 p4 =
     fl (fl (fl (snd p4 - snd p3) * fl (fst p2 - fst p1)) - fl (fl (fst p4 - fst p3) * fl (snd p2 - snd p1)))"

definition spec_numeA :: "(num \<Rightarrow> num) \<Rightarrow> position \<Rightarrow> position \<Rightarrow> position \<Rightarrow> position \<Rightarrow> num" where
  "spec_numeA fl p1 p2 p3 p4 =
     fl (fl (fl (fst p4 - fst p3) * fl (snd p1 - snd p3)) - fl (fl (snd p4 - snd p3) * fl (fst p1 - fst p3)))"

definition spec_numeB :: "(num \<Rightarrow> num) \<Rightarrow> position \<Rightarrow> position \<Rightarrow> position \<Rightarrow> position \<Rightarrow> num" where
  "spec_numeB fl p1 p2 p3 p4 =
     fl (fl (fl (fst p2 - fst p1) * fl (snd p1 - snd p3)) - fl (fl (snd p2 - snd p1) * fl (fst p1 - fst p3)))"

definition spec_uA :: "(num \<Rightarrow> num) \<Rightarrow> position \<Rightarrow> position \<Rightarrow> position \<Rightarrow> position \<Rightarrow> num" where
  "spec_uA fl p1 p2 p3 p4 = fl (spec_numeA fl p1 p2 p3 p4 / spec_denom fl p1 p2 p3 p4)"

definition spec_uB :: "(num \<Rightarrow> num) \<Rightarrow> position \<Rightarrow> position \<Rightarrow> position \<Rightarrow> position \<Rightarrow> num" where
  "spec_uB fl p1 p2 p3 p4 = fl (spec_numeB fl p1 p2 p3 p4 / spec_denom fl p1 p2 p3 p4)"

definition in_unit :: "num \<Rightarrow> bool" where
  "in_unit u \<longleftrightarrow> 0 \<le> u \<and> u \<le> 1"

definition spec_point :: "(num \<Rightarrow> num) \<Rightarrow> position \<Rightarrow> position \<Rightarrow> num \<Rightarrow> position" where
  "spec_point fl p1 p2 u =
     (fl (fst p1 + fl (u * fl (fst p2 - fst p1))), fl (snd p1 + fl (u * fl (snd p2 - snd p1))))"

subsection \<open>Collaborators\<close>

text \<open>
  \<^verbatim>\<open>Array.prototype.forEach\<close> with a callback that updates the variables it closes over
  (the state \<open>'s\<close>) and may throw: the first throw ends the loop.
\<close>

fun forEach :: "'a list \<Rightarrow> ('a \<Rightarrow> 's \<Rightarrow> error + 's) \<Rightarrow> 's \<Rightarrow> error + 's" where
  "forEach [] callback s = Inr s"
| "forEach (x # xs) callback s =
     (case callback x s of Inl e \<Rightarrow> Inl e | Inr s' \<Rightarrow> forEach xs callback s')"

text \<open>
  Modelled from the spec: \<^verbatim>\<open>featureEach\<close> of \<^verbatim>\<open>./turf-meta\<close>, which is not part of the
  sources at hand ("given a Feature or Collection, produce each contained Feature in
  original order"). The loop runs over the array \<^verbatim>\<open>features\<close> up to its \<^verbatim>\<open>length\<close>; where
  that member is not an array there is no \<^verbatim>\<open>length\<close> and no feature is visited. The index
  that is also passed to the callback is used by no caller.
\<close>

definition featureEach :: "'f layer \<Rightarrow> ('f \<Rightarrow> 's \<Rightarrow> error + 's) \<Rightarrow> 's \<Rightarrow> error + 's" where
  "featureEach layer callback s =
     (case layer of
        Feature f \<Rightarrow> callback f s
      | FeatureCollection fs \<Rightarrow> forEach fs callback s
      | Wrapped _ \<Rightarrow> Inr s)"

text \<open>
  Modelled from the spec: \<^verbatim>\<open>coordReduce\<close> of \<^verbatim>\<open>./turf-meta\<close>, called without an
  initial value ("given a LineString Feature, produce each consecutive coordinate pair
  in order along with its index"): the first coordinate is the first \<open>previous\<close>, the
  callback runs for the coordinates at the indices 1, 2, ... and its return value is the
  next \<open>previous\<close>. The state \<open>'s\<close> holds the variables the callback closes over.
\<close>

fun coordReduce_from ::
  "('s \<Rightarrow> position \<Rightarrow> position \<Rightarrow> nat \<Rightarrow> 's \<times> position) \<Rightarrow> 's \<Rightarrow> position \<Rightarrow> nat \<Rightarrow> position list \<Rightarrow> 's"
where
  "coordReduce_from callback s previous i [] = s"
| "coordReduce_from callback s previous i (current # rest) =
     (case callback s previous current i of
        (s', returned) \<Rightarrow> coordReduce_from callback s' returned (Suc i) rest)"

definition coordReduce ::
  "position list \<Rightarrow> ('s \<Rightarrow> position \<Rightarrow> position \<Rightarrow> nat \<Rightarrow> 's \<times> position) \<Rightarrow> 's \<Rightarrow> 's"
where
  "coordReduce coords callback s =
     (case coords of [] \<Rightarrow> s | first # rest \<Rightarrow> coordReduce_from callback s first 1 rest)"

text \<open>
  Modelled from the spec: \<^verbatim>\<open>flatten\<close> of the dependency \<^verbatim>\<open>@turf/flatten\<close> ("given a
  MultiLineString Feature, produce the equivalent Collection of single-part LineString
  Features"); each part keeps the properties of the feature. The result is a collection
  object. The source calls it on MultiLineString features only.
\<close>

definition flatten :: "feature \<Rightarrow> feature layer" where
  "flatten f =
     (case geometry f of
        MultiLineString parts \<Rightarrow>
          FeatureCollection (map (\<lambda>cs. \<lparr>properties = properties f, geometry = LineString cs\<rparr>) parts)
      | _ \<Rightarrow> FeatureCollection [f])"

text \<open>
  Modelled from the spec: \<^verbatim>\<open>helpers.featureCollection\<close>, which makes a collection
  object with its argument as the \<^verbatim>\<open>features\<close> member. In \<^verbatim>\<open>lineTree\<close> the argument is
  the collection that \<^verbatim>\<open>flatten\<close> returned, not an array of features.
\<close>

definition featureCollection :: "'f layer \<Rightarrow> 'f layer" where
  "featureCollection features = Wrapped features"

text \<open>
  Modelled from the spec: \<^verbatim>\<open>bboxPolygon\<close> of the dependency \<^verbatim>\<open>@turf/bbox-polygon\<close>
  ("given a BoundingBox, produce a four-cornered Polygon Feature"): one closed ring
  through the four corners of \<^verbatim>\<open>[minX, minY, maxX, maxY]\<close>.
\<close>

definition bboxPolygon :: "num \<times> num \<times> num \<times> num \<Rightarrow> feature" where
  "bboxPolygon bbox =
     (case bbox of (west, south, east, north) \<Rightarrow>
        \<lparr>properties = Map.empty,
         geometry = Polygon [[(west, south), (east, south), (east, north), (west, north), (west, south)]]\<rparr>)"

subsection \<open>The spatial index\<close>

text \<open>The objects that \<^verbatim>\<open>lineTree\<close> pushes onto \<^verbatim>\<open>load\<close>.\<close>

record index_entry =
  minX :: num
  minY :: num
  maxX :: num
  maxY :: num
  index :: nat
  lineSegment :: lineSegment

text \<open>
  Modelled from the spec: the dependency \<^verbatim>\<open>rbush\<close>. The index is a bulk-loaded,
  immutable collection of entries that supports "(a) full enumeration of all entries in
  arbitrary order, and (b) for a query BoundingBox, return every stored entry whose
  BoundingBox overlaps it", with the boundary-inclusive overlap test of the
  specification. The arrangement that bulk loading gives the entries is the parameter
  \<open>pack\<close>; both traversals follow it.
\<close>

datatype rbush = RBush (entries: "index_entry list")

definition rbush_load :: "(index_entry list \<Rightarrow> index_entry list) \<Rightarrow> index_entry list \<Rightarrow> rbush" where
  "rbush_load pack load = RBush (pack load)"

definition rbush_all :: "rbush \<Rightarrow> index_entry list" where
  "rbush_all tree = entries tree"

definition overlap :: "index_entry \<Rightarrow> index_entry \<Rightarrow> bool" where
  "overlap query entry \<longleftrightarrow>
     minX query \<le> maxX entry \<and> maxX query \<ge> minX entry \<and>
     minY query \<le> maxY entry \<and> maxY query \<ge> minY entry"

definition rbush_search :: "rbush \<Rightarrow> index_entry \<Rightarrow> index_entry list" where
  "rbush_search tree bbox = filter (overlap bbox) (entries tree)"

subsection \<open>The segment extractor\<close>

text \<open>
  The callback given to \<^verbatim>\<open>coordReduce\<close>: it pushes one entry onto \<^verbatim>\<open>load\<close> and returns
  \<^verbatim>\<open>current\<close>.
\<close>

definition segment_callback ::
  "index_entry list \<Rightarrow> position \<Rightarrow> position \<Rightarrow> nat \<Rightarrow> index_entry list \<times> position"
where
  "segment_callback load previous current i =
     (let lineSegment = lineString [previous, current];
          minX = (if fst previous < fst current then fst previous else fst current);
          minY = (if snd previous < snd current then snd previous else snd current);
          maxX = (if fst previous > fst current then fst previous else fst current);
          maxY = (if snd previous > snd current then snd previous else snd current)
      in (load @ [\<lparr>minX = minX, minY = minY, maxX = maxX, maxY = maxY,
                   index = i, lineSegment = lineSegment\<rparr>],
          current))"

text \<open>The callback of the inner \<^verbatim>\<open>featureEach\<close>: the type check, then the reduction.\<close>

definition feature_callback :: "feature \<Rightarrow> index_entry list \<Rightarrow> error + index_entry list" where
  "feature_callback feature load =
     (case geometry feature of
        LineString coords \<Rightarrow> Inr (coordReduce coords segment_callback load)
      | _ \<Rightarrow> Inl InvalidGeometryType)"

text \<open>
  The callback of the outer \<^verbatim>\<open>featureEach\<close>: a MultiLineString feature is replaced by
  \<^verbatim>\<open>helpers.featureCollection(flatten(multiFeature))\<close>, the collection of its parts
  wrapped once more, in which the inner \<^verbatim>\<open>featureEach\<close> finds no feature.
\<close>

definition multiFeature_callback :: "feature \<Rightarrow> index_entry list \<Rightarrow> error + index_entry list" where
  "multiFeature_callback multiFeature load =
     (let multiFeature' =
            (case geometry multiFeature of
               MultiLineString _ \<Rightarrow> featureCollection (flatten multiFeature)
             | _ \<Rightarrow> Feature multiFeature)
      in featureEach multiFeature' feature_callback load)"

subsection \<open>Input objects\<close>

text \<open>
  The features of the two inputs are objects of the caller, which the diagnostic mode
  writes to. An input is a \<open>layer\<close> of addresses, and a heap gives the object at an
  address; the same address may occur several times and in both inputs.
\<close>

type_synonym addr = nat

type_synonym heap = "addr \<Rightarrow> feature"

fun deref :: "heap \<Rightarrow> addr layer \<Rightarrow> feature layer" where
  "deref h (Feature a) = Feature (h a)"
| "deref h (FeatureCollection as) = FeatureCollection (map h as)"
| "deref h (Wrapped c) = Wrapped (deref h c)"

text \<open>
  The value of \<^verbatim>\<open>load\<close> when \<^verbatim>\<open>lineTree\<close> reaches \<^verbatim>\<open>tree.load(load)\<close>, or the error
  thrown before.
\<close>

definition lineTree_load :: "heap \<Rightarrow> addr layer \<Rightarrow> error + index_entry list" where
  "lineTree_load h line = featureEach (deref h line) multiFeature_callback []"

definition lineTree :: "(index_entry list \<Rightarrow> index_entry list) \<Rightarrow> heap \<Rightarrow> addr layer \<Rightarrow> error + rbush" where
  "lineTree pack h line =
     (case lineTree_load h line of
        Inl e \<Rightarrow> Inl e
      | Inr load \<Rightarrow> Inr (rbush_load pack load))"

definition createPolygonsFromTree :: "rbush \<Rightarrow> feature list" where
  "createPolygonsFromTree tree =
     map (\<lambda>item. bboxPolygon (minX item, minY item, maxX item, maxY item)) (rbush_all tree)"

subsection \<open>The top-level operation\<close>

text \<open>
  A member of the returned collection is an object made by the call or one of the
  caller's feature objects, by reference.
\<close>

datatype member = New feature | Shared addr

text \<open>The body of the nested \<^verbatim>\<open>forEach\<close> loops.\<close>

definition pair_callback ::
  "(num \<Rightarrow> num) \<Rightarrow> index_entry \<Rightarrow> index_entry \<Rightarrow> member list \<Rightarrow> error + member list"
where
  "pair_callback fl index1 index2 results =
     (let lineSegment1 = lineSegment index1;
          lineSegment2 = lineSegment index2
      in case intersects fl lineSegment1 lineSegment2 of
           Inl e \<Rightarrow> Inl e
         | Inr None \<Rightarrow> Inr results
         | Inr (Some pt) \<Rightarrow> Inr (results @ [New pt]))"

definition tree_callback ::
  "(num \<Rightarrow> num) \<Rightarrow> rbush \<Rightarrow> index_entry \<Rightarrow> member list \<Rightarrow> error + member list"
where
  "tree_callback fl tree2 index1 results =
     forEach (rbush_search tree2 index1) (pair_callback fl index1) results"

text \<open>
  The callback of the two colouring loops; the state is the heap and \<^verbatim>\<open>results\<close>.
\<close>

definition color_callback :: "string \<Rightarrow> addr \<Rightarrow> heap \<times> member list \<Rightarrow> error + heap \<times> member list" where
  "color_callback color a s =
     (case s of (h, results) \<Rightarrow>
        let feature = h a;
            feature = feature\<lparr>properties := (properties feature)(''stroke'' \<mapsto> JString color)\<rparr>;
            feature = feature\<lparr>properties := (properties feature)(''stroke-width'' \<mapsto> JNumber 6)\<rparr>
        in Inr (h(a := feature), results @ [Shared a]))"

text \<open>
  \<^verbatim>\<open>lineIntersect(line1, line2, debug)\<close>: the heap after the call, and the thrown error
  or the features of the returned collection. \<open>debug\<close> is the truthiness of the hidden
  third argument.
\<close>

definition lineIntersect ::
  "(num \<Rightarrow> num) \<Rightarrow> (index_entry list \<Rightarrow> index_entry list) \<Rightarrow> heap \<Rightarrow> addr layer \<Rightarrow> addr layer \<Rightarrow> bool
     \<Rightarrow> heap \<times> (error + member list)"
where
  "lineIntersect fl pack h line1 line2 debug =
     (case lineTree pack h line1 of
        Inl e \<Rightarrow> (h, Inl e)
      | Inr tree1 \<Rightarrow>
     (case lineTree pack h line2 of
        Inl e \<Rightarrow> (h, Inl e)
      | Inr tree2 \<Rightarrow>
     (case forEach (rbush_all tree1) (tree_callback fl tree2) [] of
        Inl e \<Rightarrow> (h, Inl e)
      | Inr results \<Rightarrow>
          if debug then
            (let results = results @ map New (createPolygonsFromTree tree1);
                 results = results @ map New (createPolygonsFromTree tree2)
             in case featureEach line1 (color_callback ''#f00'') (h, results) of
                  Inl e \<Rightarrow> (h, Inl e)
                | Inr s1 \<Rightarrow>
                    (case featureEach line2 (color_callback ''#00f'') s1 of
                       Inl e \<Rightarrow> (fst s1, Inl e)
                     | Inr (h2, results) \<Rightarrow> (h2, Inr results)))
          else (h, Inr results))))"

text \<open>
  The naive double loop over all pairs of segments of the two inputs, in the order of
  the two segment lists.
\<close>

definition naive_points :: "(num \<Rightarrow> num) \<Rightarrow> index_entry list \<Rightarrow> index_entry list \<Rightarrow> error + member list" where
  "naive_points fl load1 load2 =
     forEach load1 (\<lambda>index1. forEach load2 (pair_callback fl index1)) []"

subsection \<open>Notions used to state the properties\<close>

text \<open>
  Geometry in exact arithmetic. The direction vectors of two segments are linearly
  dependent (the segments are parallel or collinear, or one has zero length); a position
  lies on a segment; two segments share a point.
\<close>

definition parallel_dirs :: "position \<Rightarrow> position \<Rightarrow> position \<Rightarrow> position \<Rightarrow> bool" where
  "parallel_dirs p1 p2 p3 p4 \<longleftrightarrow>
     (\<exists>a b. (a \<noteq> 0 \<or> b \<noteq> 0) \<and> a * (fst p2 - fst p1) = b * (fst p4 - fst p3)
        \<and> a * (snd p2 - snd p1) = b * (snd p4 - snd p3))"

definition cross :: "position \<Rightarrow> position \<Rightarrow> position \<Rightarrow> num" where
  "cross p q r = (fst q - fst p) * (snd r - snd p) - (snd q - snd p) * (fst r - fst p)"

definition on_segment :: "position \<Rightarrow> position \<Rightarrow> position \<Rightarrow> bool" where
  "on_segment p q r \<longleftrightarrow>
     cross p q r = 0 \<and> min (fst p) (fst q) \<le> fst r \<and> fst r \<le> max (fst p) (fst q)
       \<and> min (snd p) (snd q) \<le> snd r \<and> snd r \<le> max (snd p) (snd q)"

text \<open>
  The segment list of a line as the specification describes it: one entry for each pair
  of consecutive vertices, with the coordinate-wise minimum and maximum of the two
  endpoints as its bounding box. \<open>features_of\<close> gives the features that \<^verbatim>\<open>featureEach\<close>
  visits, \<open>parts_of\<close> the lines whose segments the extractor loads for a geometry (none
  for a MultiLineString, and an error for any geometry but these two), and \<open>extracted\<close>
  the segments loaded for an input.
\<close>

definition entry_of :: "position \<Rightarrow> position \<Rightarrow> nat \<Rightarrow> index_entry" where
  "entry_of p c i =
     \<lparr>minX = min (fst p) (fst c), minY = min (snd p) (snd c),
      maxX = max (fst p) (fst c), maxY = max (snd p) (snd c),
      index = i, lineSegment = [p, c]\<rparr>"

fun consecutive :: "position \<Rightarrow> nat \<Rightarrow> position list \<Rightarrow> index_entry list" where
  "consecutive p i [] = []"
| "consecutive p i (c # cs) = entry_of p c i # consecutive c (Suc i) cs"

definition segments_of :: "position list \<Rightarrow> index_entry list" where
  "segments_of coords = (case coords of [] \<Rightarrow> [] | p # cs \<Rightarrow> consecutive p 1 cs)"

fun features_of :: "'f layer \<Rightarrow> 'f list" where
  "features_of (Feature f) = [f]"
| "features_of (FeatureCollection fs) = fs"
| "features_of (Wrapped c) = []"

fun parts_of :: "geometry \<Rightarrow> position list list option" where
  "parts_of (LineString coords) = Some [coords]"
| "parts_of (MultiLineString parts) = Some []"
| "parts_of _ = None"

definition feature_segments :: "feature \<Rightarrow> index_entry list" where
  "feature_segments f =
     (case parts_of (geometry f) of None \<Rightarrow> [] | Some parts \<Rightarrow> concat (map segments_of parts))"

definition all_lines :: "heap \<Rightarrow> addr layer \<Rightarrow> bool" where
  "all_lines h line \<longleftrightarrow> (\<forall>a \<in> set (features_of line). parts_of (geometry (h a)) \<noteq> None)"

definition extracted :: "heap \<Rightarrow> addr layer \<Rightarrow> index_entry list" where
  "extracted h line = concat (map (\<lambda>a. feature_segments (h a)) (features_of line))"

text \<open>
  What the specification asks of bulk loading: the index holds the loaded entries, each
  once, in an order of its own.
\<close>

definition arrangement :: "(index_entry list \<Rightarrow> index_entry list) \<Rightarrow> bool" where
  "arrangement pack \<longleftrightarrow> (\<forall>load. mset (pack load) = mset load)"

text \<open>
  The points that the nested loops collect from one pair of entries and from two
  indexes, and the pairs on which the loops call the exact test.
\<close>

definition two_points :: "index_entry \<Rightarrow> bool" where
  "two_points e \<longleftrightarrow> length (lineSegment e) = 2"

definition point_of :: "(num \<Rightarrow> num) \<Rightarrow> index_entry \<Rightarrow> index_entry \<Rightarrow> member list" where
  "point_of fl e1 e2 =
     (case intersects fl (lineSegment e1) (lineSegment e2) of Inr (Some p) \<Rightarrow> [New p] | _ \<Rightarrow> [])"

definition pipeline_points :: "(num \<Rightarrow> num) \<Rightarrow> rbush \<Rightarrow> rbush \<Rightarrow> member list" where
  "pipeline_points fl tree1 tree2 =
     concat (map (\<lambda>e1. concat (map (point_of fl e1) (rbush_search tree2 e1))) (rbush_all tree1))"

text \<open>
  The effect of the diagnostic mode: the heap after both colouring loops, and the records
  pushed after the intersection points.
\<close>

definition paint :: "string \<Rightarrow> feature \<Rightarrow> feature" where
  "paint color f =
     f\<lparr>properties := (properties f)(''stroke'' \<mapsto> JString color, ''stroke-width'' \<mapsto> JNumber 6)\<rparr>"

definition paint_all :: "string \<Rightarrow> addr list \<Rightarrow> heap \<Rightarrow> heap" where
  "paint_all color as h = (\<lambda>a. if a \<in> set as then paint color (h a) else h a)"

definition painted :: "heap \<Rightarrow> addr layer \<Rightarrow> addr layer \<Rightarrow> heap" where
  "painted h line1 line2 =
     paint_all ''#00f'' (features_of line2) (paint_all ''#f00'' (features_of line1) h)"

definition tree_of :: "(index_entry list \<Rightarrow> index_entry list) \<Rightarrow> heap \<Rightarrow> addr layer \<Rightarrow> rbush" where
  "tree_of pack h line = (case lineTree pack h line of Inr tree \<Rightarrow> tree | Inl e \<Rightarrow> RBush [])"

definition diagnostics :: "(index_entry list \<Rightarrow> index_entry list) \<Rightarrow> heap \<Rightarrow> addr layer \<Rightarrow> addr layer \<Rightarrow> member list" where
  "diagnostics pack h line1 line2 =
     map New (createPolygonsFromTree (tree_of pack h line1))
     @ map New (createPolygonsFromTree (tree_of pack h line2))
     @ map Shared (features_of line1) @ map Shared (features_of line2)"

text \<open>
  The leaves of a feature after flattening (the parts of a MultiLineString, else the
  feature itself), and the members of a result that are point features without
  properties.
\<close>

definition leaves :: "feature \<Rightarrow> feature list" where
  "leaves f = (case geometry f of MultiLineString _ \<Rightarrow> features_of (flatten f) | _ \<Rightarrow> [f])"

fun is_LineString :: "geometry \<Rightarrow> bool" where
  "is_LineString (LineString _) = True"
| "is_LineString _ = False"


text \<open>The position at parameter \<open>u\<close> on the segment from \<open>p\<close> to \<open>q\<close>.\<close>

definition along :: "position \<Rightarrow> position \<Rightarrow> num \<Rightarrow> position" where
  "along p q u = (fst p + u * (fst q - fst p), snd p + u * (snd q - snd p))"

definition meets :: "lineSegment \<Rightarrow> lineSegment \<Rightarrow> bool" where
  "meets seg1 seg2 \<longleftrightarrow>
     (\<exists>u v. in_unit u \<and> in_unit v \<and> along (seg1 ! 0) (seg1 ! 1) u = along (seg2 ! 0) (seg2 ! 1) v)"

definition candidates :: "rbush \<Rightarrow> rbush \<Rightarrow> (index_entry \<times> index_entry) list" where
  "candidates tree1 tree2 =
     concat (map (\<lambda>index1. map (Pair index1) (rbush_search tree2 index1)) (rbush_all tree1))"

text \<open>
  Example inputs: the objects at the addresses 10 to 14 are lines, the second a
  crossing of the first, the third the first as a MultiLineString, the next two its
  parts; the objects at 20 and 21 are a horizontal segment and a vertical one that ends
  \<open>2^-60\<close> below it; every other address holds a Point feature.
\<close>

definition example_heap :: heap where
  "example_heap a =
     \<lparr>properties = Map.empty,
      geometry =
        (if a = 10 then LineString [(0, 0), (2, 2), (3, 0)]
         else if a = 11 then LineString [(0, 2), (2, 0)]
         else if a = 12 then MultiLineString [[(0, 0), (2, 2)], [(2, 2), (3, 0)]]
         else if a = 13 then LineString [(0, 0), (2, 2)]
         else if a = 14 then LineString [(2, 2), (3, 0)]
         else if a = 20 then LineString [(0, 0), (1, 0)]
         else if a = 21 then LineString [(1 / 2, - 1), (1 / 2, - (1 / 2 ^ 60))]
         else Point (0, 0))\<rparr>"

section \<open>Properties of the exact test\<close>

lemma intersects_two_points:
  "intersects fl [p1, p2] [p3, p4] =
     (if spec_denom fl p1 p2 p3 p4 = 0 then Inr None
      else if in_unit (spec_uA fl p1 p2 p3 p4) \<and> in_unit (spec_uB fl p1 p2 p3 p4)
           then Inr (Some (point (spec_point fl p1 p2 (spec_uA fl p1 p2 p3 p4))))
           else Inr None)"
  by (simp add: intersects_def Let_def fsub_def fmul_def fdiv_def fadd_def spec_denom_def
      spec_numeA_def spec_numeB_def spec_uA_def spec_uB_def in_unit_def spec_point_def)

text \<open>
  Claim C1. For two 2-point segments whose \<open>denom\<close> is nonzero, the test emits a point
  exactly when both parameters \<open>uA = numeA / denom\<close> and \<open>uB = numeB / denom\<close> lie in the
  closed interval from 0 to 1, and the point is then
  \<open>(x1 + uA * (x2 - x1), y1 + uA * (y2 - y1))\<close>; otherwise it emits no point. This holds
  in every arithmetic \<open>fl\<close>.
\<close>

theorem intersects_in_range_emits_point:
  "spec_denom fl p1 p2 p3 p4 \<noteq> 0 \<Longrightarrow>
   intersects fl [p1, p2] [p3, p4] =
     (if in_unit (spec_uA fl p1 p2 p3 p4) \<and> in_unit (spec_uB fl p1 p2 p3 p4)
      then Inr (Some (point (spec_point fl p1 p2 (spec_uA fl p1 p2 p3 p4))))
      else Inr None)"
  by (simp add: intersects_two_points)

text \<open>
  The segments \<open>(0,0)-(1,1)\<close> and \<open>(1,1)-(2,0)\<close> share an endpoint (\<open>uA = 1\<close>, \<open>uB = 0\<close>),
  which is reported; for \<open>(0,0)-(1,0)\<close> and \<open>(2,-1)-(2,1)\<close> the parameter \<open>uA\<close> is 2.
\<close>

theorem intersects_in_range_emits_point_witness:
  "spec_denom id (0, 0) (1, 1) (1, 1) (2, 0) \<noteq> 0
   \<and> intersects id [(0, 0), (1, 1)] [(1, 1), (2, 0)] = Inr (Some (point (1, 1)))
   \<and> spec_denom id (0, 0) (1, 0) (2, -1) (2, 1) \<noteq> 0
   \<and> intersects id [(0, 0), (1, 0)] [(2, -1), (2, 1)] = Inr None"
proof -
  have d1: "spec_denom id (0, 0) (1, 1) (1, 1) (2, 0) \<noteq> 0"
    by (simp add: spec_denom_def)
  have d2: "spec_denom id (0, 0) (1, 0) (2, -1) (2, 1) \<noteq> 0"
    by (simp add: spec_denom_def)
  show ?thesis
    using intersects_in_range_emits_point [OF d1] intersects_in_range_emits_point [OF d2] d1 d2
    by (simp add: spec_denom_def spec_numeA_def spec_numeB_def spec_uA_def spec_uB_def
        in_unit_def spec_point_def)
qed

lemma intersects_error_iff:
  "(\<exists>e. intersects fl line1 line2 = Inl e) \<longleftrightarrow> (length line1 \<noteq> 2 \<or> length line2 \<noteq> 2)"
  by (auto simp: intersects_def Let_def)

lemma intersects_error_kind:
  "intersects fl line1 line2 = Inl e \<Longrightarrow> \<exists>w. e = InvalidSegmentLength w"
  by (auto simp: intersects_def Let_def split: if_splits)


lemma denom_exact: "spec_denom id p1 p2 p3 p4 =
   (snd p4 - snd p3) * (fst p2 - fst p1) - (fst p4 - fst p3) * (snd p2 - snd p1)"
  by (simp add: spec_denom_def)

lemma parallel_dirs_denom: "parallel_dirs p1 p2 p3 p4 \<longleftrightarrow> spec_denom id p1 p2 p3 p4 = 0"
proof
  assume "parallel_dirs p1 p2 p3 p4"
  then obtain a b where ab: "a \<noteq> 0 \<or> b \<noteq> 0"
    and x: "a * (fst p2 - fst p1) = b * (fst p4 - fst p3)"
    and y: "a * (snd p2 - snd p1) = b * (snd p4 - snd p3)"
    unfolding parallel_dirs_def by blast
  have "a * ((snd p4 - snd p3) * (fst p2 - fst p1) - (fst p4 - fst p3) * (snd p2 - snd p1)) = 0"
    using x y by algebra
  moreover have "b * ((snd p4 - snd p3) * (fst p2 - fst p1) - (fst p4 - fst p3) * (snd p2 - snd p1)) = 0"
    using x y by algebra
  ultimately show "spec_denom id p1 p2 p3 p4 = 0"
    using ab by (auto simp: denom_exact)
next
  assume d: "spec_denom id p1 p2 p3 p4 = 0"
  then have e: "(snd p4 - snd p3) * (fst p2 - fst p1) = (fst p4 - fst p3) * (snd p2 - snd p1)"
    by (simp add: denom_exact)
  show "parallel_dirs p1 p2 p3 p4"
  proof (cases "fst p4 - fst p3 = 0 \<and> snd p4 - snd p3 = 0")
    case True
    then show ?thesis unfolding parallel_dirs_def
      by (intro exI[of _ 0] exI[of _ 1]) simp
  next
    case False
    show ?thesis
    proof (cases "fst p4 - fst p3 = 0")
      case True
      with False have "snd p4 - snd p3 \<noteq> 0" by simp
      then show ?thesis unfolding parallel_dirs_def
        using e True
        by (intro exI[of _ "snd p4 - snd p3"] exI[of _ "snd p2 - snd p1"]) (simp add: mult.commute)
    next
      case False
      then show ?thesis unfolding parallel_dirs_def
        using e
        by (intro exI[of _ "fst p4 - fst p3"] exI[of _ "fst p2 - fst p1"]) (simp add: mult.commute)
    qed
  qed
qed

lemma zero_length_denom:
  assumes "fl 0 = 0" and "p1 = p2 \<or> p3 = p4"
  shows "spec_denom fl p1 p2 p3 p4 = 0"
  using assms by (auto simp: spec_denom_def)

text \<open>
  Claim C3, as amended. A pair of two-point segments whose computed \<open>denom\<close> is 0 yields
  no point and no error, in every arithmetic \<open>fl\<close>. A pair with a zero-length segment
  has \<open>denom = 0\<close> in every arithmetic that rounds 0 to 0. In exact arithmetic
  \<open>denom = 0\<close> holds exactly for the pairs whose direction vectors are linearly dependent:
  the parallel, the collinear and the zero-length ones.
\<close>

theorem zero_denom_no_point:
  "(spec_denom fl p1 p2 p3 p4 = 0 \<longrightarrow> intersects fl [p1, p2] [p3, p4] = Inr None)
   \<and> (fl 0 = 0 \<and> (p1 = p2 \<or> p3 = p4) \<longrightarrow> spec_denom fl p1 p2 p3 p4 = 0)
   \<and> (parallel_dirs p1 p2 p3 p4 \<longleftrightarrow> spec_denom id p1 p2 p3 p4 = 0)"
  using zero_length_denom [of fl p1 p2 p3 p4] parallel_dirs_denom [of p1 p2 p3 p4]
  by (simp add: intersects_two_points)

text \<open>
  The collinear overlapping segments \<open>(0,0)-(2,0)\<close> and \<open>(1,0)-(3,0)\<close>, a zero-length
  segment, and the parallel segments \<open>(0,0)-(1,0)\<close> and \<open>(0,1)-(1,1)\<close>.
\<close>

theorem zero_denom_no_point_witness:
  "spec_denom id (0, 0) (2, 0) (1, 0) (3, 0) = 0
   \<and> intersects id [(0, 0), (2, 0)] [(1, 0), (3, 0)] = Inr None
   \<and> id (0 :: num) = 0
   \<and> spec_denom id (1, 1) (1, 1) (0, 0) (2, 2) = 0
   \<and> intersects id [(1, 1), (1, 1)] [(0, 0), (2, 2)] = Inr None
   \<and> parallel_dirs (0, 0) (1, 0) (0, 1) (1, 1)
   \<and> intersects id [(0, 0), (1, 0)] [(0, 1), (1, 1)] = Inr None"
proof -
  have d1: "spec_denom id (0, 0) (2, 0) (1, 0) (3, 0) = 0"
    and d2: "spec_denom id (1, 1) (1, 1) (0, 0) (2, 2) = 0"
    and d3: "spec_denom id (0, 0) (1, 0) (0, 1) (1, 1) = 0"
    by (simp_all add: spec_denom_def)
  show ?thesis
    using zero_denom_no_point [of id "(0, 0)" "(2, 0)" "(1, 0)" "(3, 0)"]
      zero_denom_no_point [of id "(1, 1)" "(1, 1)" "(0, 0)" "(2, 2)"]
      zero_denom_no_point [of id "(0, 0)" "(1, 0)" "(0, 1)" "(1, 1)"]
      d1 d2 d3
    by simp
qed

text \<open>The rounding of \<open>1/10\<close> is the binary64 number \<^verbatim>\<open>0x1.999999999999ap-4\<close>.\<close>

lemma binary64_tenth: "binary64 (1 / 10) = 3602879701896397 / 36028797018963968"
  by code_simp

text \<open>
  With binary64 rounding the claim C3 fails as stated. The segment from
  \<open>(2^-50, 5 * 2^-50)\<close> to \<open>(2, 10)\<close> lies on the segment from \<open>(-1, -5)\<close> to \<open>(2, 10)\<close>,
  on the line \<open>y = 5 x\<close>. The differences \<open>10 - 5 * 2^-50\<close> and \<open>-5 - 5 * 2^-50\<close> are not
  binary64 numbers; after their rounding \<open>denom\<close> is \<open>2^-48\<close> and not 0, both parameters
  are in range, and the test emits the point \<open>(1/2, 5/2)\<close>. The lemmas below are the
  roundings of the source's operations on these inputs, one by one.
\<close>

lemma collinear_roundings_1:
  "binary64 (10 - (5 / 2 ^ 50)) = (2814749767106559 / 2 ^ 48)"
  "binary64 (2 - (- 1)) = 3"
  "binary64 ((2814749767106559 / 2 ^ 48) * 3) = (8444249301319677 / 2 ^ 48)"
  "binary64 (2 - (1 / 2 ^ 50)) = (2251799813685247 / 2 ^ 50)"
  "binary64 (10 - (- 5)) = 15"
  "binary64 ((2251799813685247 / 2 ^ 50) * 15) = (2111062325329919 / 2 ^ 46)"
  "binary64 ((8444249301319677 / 2 ^ 48) - (2111062325329919 / 2 ^ 46)) = (1 / 2 ^ 48)"
  by code_simp+

lemma collinear_roundings_2:
  "binary64 ((- 5) - (5 / 2 ^ 50)) = (- (5629499534213125 / 2 ^ 50))"
  "binary64 ((2251799813685247 / 2 ^ 50) * (- (5629499534213125 / 2 ^ 50))) = (- (2814749767106561 / 2 ^ 48))"
  "binary64 ((- 1) - (1 / 2 ^ 50)) = (- (1125899906842625 / 2 ^ 50))"
  "binary64 ((2814749767106559 / 2 ^ 48) * (- (1125899906842625 / 2 ^ 50))) = (- (5629499534213123 / 2 ^ 49))"
  "binary64 ((- (2814749767106561 / 2 ^ 48)) - (- (5629499534213123 / 2 ^ 49))) = (1 / 2 ^ 49)"
  "binary64 (3 * (- (5629499534213125 / 2 ^ 50))) = (- (1055531162664961 / 2 ^ 46))"
  "binary64 (15 * (- (1125899906842625 / 2 ^ 50))) = (- (1055531162664961 / 2 ^ 46))"
  by code_simp+

lemma collinear_roundings_3:
  "binary64 ((- (1055531162664961 / 2 ^ 46)) - (- (1055531162664961 / 2 ^ 46))) = 0"
  "binary64 ((1 / 2 ^ 49) / (1 / 2 ^ 48)) = (1 / 2)"
  "binary64 (0 / (1 / 2 ^ 48)) = 0"
  "binary64 ((1 / 2) * 3) = (3 / 2)"
  "binary64 ((- 1) + (3 / 2)) = (1 / 2)"
  "binary64 ((1 / 2) * 15) = (15 / 2)"
  "binary64 ((- 5) + (15 / 2)) = (5 / 2)"
  by code_simp+

lemmas collinear_roundings = collinear_roundings_1 collinear_roundings_2 collinear_roundings_3

lemma collinear_quantities:
  "spec_denom binary64 (- 1, - 5) (2, 10) (1 / 2 ^ 50, 5 / 2 ^ 50) (2, 10) = 1 / 2 ^ 48"
  "spec_uA binary64 (- 1, - 5) (2, 10) (1 / 2 ^ 50, 5 / 2 ^ 50) (2, 10) = 1 / 2"
  "spec_uB binary64 (- 1, - 5) (2, 10) (1 / 2 ^ 50, 5 / 2 ^ 50) (2, 10) = 0"
  "spec_point binary64 (- 1, - 5) (2, 10) (1 / 2) = (1 / 2, 5 / 2)"
  unfolding spec_uA_def spec_uB_def spec_denom_def spec_numeA_def spec_numeB_def spec_point_def
    fst_conv snd_conv
  by (simp_all only: collinear_roundings)

text \<open>
  Counterexample to claim C3 as stated: a collinear overlapping pair with a nonzero
  computed \<open>denom\<close>, for which a point is emitted.
\<close>

theorem collinear_overlap_emits_point:
  "on_segment (- 1, - 5) (2, 10) (1 / 2 ^ 50, 5 / 2 ^ 50)
   \<and> on_segment (- 1, - 5) (2, 10) (2, 10)
   \<and> spec_denom binary64 (- 1, - 5) (2, 10) (1 / 2 ^ 50, 5 / 2 ^ 50) (2, 10) \<noteq> 0
   \<and> intersects binary64 [(- 1, - 5), (2, 10)] [(1 / 2 ^ 50, 5 / 2 ^ 50), (2, 10)]
       = Inr (Some (point (1 / 2, 5 / 2)))"
proof -
  have "on_segment (- 1, - 5) (2, 10) (1 / 2 ^ 50, 5 / 2 ^ 50)"
    and "on_segment (- 1, - 5) (2, 10) (2, 10)"
    by (simp_all add: on_segment_def cross_def)
  moreover have "intersects binary64 [(- 1, - 5), (2, 10)] [(1 / 2 ^ 50, 5 / 2 ^ 50), (2, 10)]
       = Inr (Some (point (1 / 2, 5 / 2)))"
    unfolding intersects_two_points collinear_quantities by (simp add: in_unit_def)
  moreover have "spec_denom binary64 (- 1, - 5) (2, 10) (1 / 2 ^ 50, 5 / 2 ^ 50) (2, 10) \<noteq> 0"
    unfolding collinear_quantities by simp
  ultimately show ?thesis by simp
qed

section \<open>Properties of the segment extractor\<close>

lemma segment_callback_entry:
  "segment_callback load p c i = (load @ [entry_of p c i], c)"
  by (auto simp: segment_callback_def entry_of_def lineString_def Let_def min_def max_def)

lemma coordReduce_from_segments:
  "coordReduce_from segment_callback load p i cs = load @ consecutive p i cs"
  by (induction cs arbitrary: load p i) (simp_all add: segment_callback_entry)

lemma coordReduce_segments:
  "coordReduce coords segment_callback load = load @ segments_of coords"
  by (simp add: coordReduce_def coordReduce_from_segments segments_of_def split: list.splits)

lemma length_consecutive [simp]: "length (consecutive p i cs) = length cs"
  by (induction cs arbitrary: p i) simp_all

lemma nth_consecutive:
  "k < length cs \<Longrightarrow> consecutive p i cs ! k = entry_of ((p # cs) ! k) (cs ! k) (i + k)"
proof (induction cs arbitrary: p i k)
  case Nil
  then show ?case by simp
next
  case (Cons c cs)
  show ?case
  proof (cases k)
    case 0
    then show ?thesis by simp
  next
    case (Suc j)
    with Cons.prems have "j < length cs" by simp
    from Cons.IH [OF this, of c "Suc i"] Suc show ?thesis by simp
  qed
qed

lemma length_segments_of: "length (segments_of coords) = length coords - 1"
  by (simp add: segments_of_def split: list.splits)

lemma nth_segments_of:
  "Suc k < length coords \<Longrightarrow>
     segments_of coords ! k = entry_of (coords ! k) (coords ! Suc k) (Suc k)"
  by (cases coords) (simp_all add: segments_of_def nth_consecutive)

lemma forEach_append_state:
  assumes "\<And>x s. x \<in> set xs \<Longrightarrow> cb x s = Inr (s @ g x)"
  shows "forEach xs cb s = Inr (s @ concat (map g xs))"
  using assms by (induction xs arbitrary: s) simp_all

lemma feature_callback_line:
  "feature_callback f load =
     (case geometry f of LineString coords \<Rightarrow> Inr (load @ segments_of coords) | _ \<Rightarrow> Inl InvalidGeometryType)"
  by (simp add: feature_callback_def coordReduce_segments split: geometry.splits)

lemma multiFeature_callback_parts:
  "multiFeature_callback f load =
     (case parts_of (geometry f) of
        None \<Rightarrow> Inl InvalidGeometryType
      | Some parts \<Rightarrow> Inr (load @ concat (map segments_of parts)))"
  by (cases "geometry f")
    (simp_all add: multiFeature_callback_def featureCollection_def featureEach_def
      feature_callback_line)

lemma forEach_multiFeature:
  "forEach fs multiFeature_callback load =
     (if \<forall>f \<in> set fs. parts_of (geometry f) \<noteq> None
      then Inr (load @ concat (map feature_segments fs)) else Inl InvalidGeometryType)"
  by (induction fs arbitrary: load)
    (auto simp: multiFeature_callback_parts feature_segments_def split: option.splits)

lemma lineTree_load_eq:
  "lineTree_load h line =
     (if all_lines h line then Inr (extracted h line) else Inl InvalidGeometryType)"
proof (cases line)
  case (Feature a)
  then show ?thesis
    by (simp add: lineTree_load_def featureEach_def multiFeature_callback_parts all_lines_def
        extracted_def feature_segments_def split: option.splits)
next
  case (FeatureCollection as)
  then show ?thesis
    by (simp add: lineTree_load_def featureEach_def forEach_multiFeature all_lines_def
        extracted_def comp_def)
next
  case (Wrapped c)
  then show ?thesis
    by (simp add: lineTree_load_def featureEach_def all_lines_def extracted_def)
qed

lemma lineTree_eq:
  "lineTree pack h line =
     (if all_lines h line then Inr (RBush (pack (extracted h line))) else Inl InvalidGeometryType)"
  by (simp add: lineTree_def lineTree_load_eq rbush_load_def)

lemma entry_of_sel [simp]:
  "minX (entry_of p c i) = min (fst p) (fst c)" "minY (entry_of p c i) = min (snd p) (snd c)"
  "maxX (entry_of p c i) = max (fst p) (fst c)" "maxY (entry_of p c i) = max (snd p) (snd c)"
  "index (entry_of p c i) = i" "lineSegment (entry_of p c i) = [p, c]"
  by (simp_all add: entry_of_def)

lemma lineTree_load_LineString:
  "geometry (h a) = LineString coords \<Longrightarrow> lineTree_load h (Feature a) = Inr (segments_of coords)"
  by (simp add: lineTree_load_eq all_lines_def extracted_def feature_segments_def)

lemma lineTree_load_MultiLineString:
  "geometry (h a) = MultiLineString parts \<Longrightarrow> lineTree_load h (Feature a) = Inr []"
  by (simp add: lineTree_load_eq all_lines_def extracted_def feature_segments_def)

lemma two_points_entry_of [simp]: "two_points (entry_of p c i)"
  by (simp add: two_points_def entry_of_def)

lemma two_points_consecutive: "e \<in> set (consecutive p i cs) \<Longrightarrow> two_points e"
  by (induction cs arbitrary: p i) auto

lemma two_points_segments_of: "e \<in> set (segments_of coords) \<Longrightarrow> two_points e"
  by (auto simp: segments_of_def two_points_consecutive split: list.splits)

lemma two_points_extracted: "e \<in> set (extracted h line) \<Longrightarrow> two_points e"
  by (auto simp: extracted_def feature_segments_def two_points_segments_of split: option.splits)

lemma consecutive_shape: "e \<in> set (consecutive p i cs) \<Longrightarrow> \<exists>q c k. e = entry_of q c k"
proof (induction cs arbitrary: p i)
  case Nil
  then show ?case by simp
next
  case (Cons c cs)
  from Cons.prems have "e = entry_of p c i \<or> e \<in> set (consecutive c (Suc i) cs)" by simp
  then show ?case using Cons.IH by blast
qed

lemma segments_of_shape:
  assumes "e \<in> set (segments_of coords)"
  shows "\<exists>q c k. e = entry_of q c k"
proof (cases coords)
  case Nil
  with assms show ?thesis by (simp add: segments_of_def)
next
  case (Cons p cs)
  with assms have "e \<in> set (consecutive p 1 cs)" by (simp add: segments_of_def)
  then show ?thesis by (rule consecutive_shape)
qed

lemma extracted_shape: "e \<in> set (extracted h line) \<Longrightarrow> \<exists>q c k. e = entry_of q c k"
proof -
  assume "e \<in> set (extracted h line)"
  then obtain coords where "e \<in> set (segments_of coords)"
    by (auto simp: extracted_def feature_segments_def split: option.splits)
  then show ?thesis by (rule segments_of_shape)
qed

text \<open>The extractor on the example inputs.\<close>

lemmas extractor_defs =
  lineTree_load_def featureEach_def multiFeature_callback_def feature_callback_def
  coordReduce_def segment_callback_def lineString_def featureCollection_def flatten_def Let_def

lemma example_load_0:
  "lineTree_load example_heap (Feature 10) =
     Inr [\<lparr>minX = 0, minY = 0, maxX = 2, maxY = 2, index = 1, lineSegment = [(0, 0), (2, 2)]\<rparr>,
          \<lparr>minX = 2, minY = 0, maxX = 3, maxY = 2, index = 2, lineSegment = [(2, 2), (3, 0)]\<rparr>]"
  by (simp add: example_heap_def extractor_defs)

lemma example_load_1:
  "lineTree_load example_heap (Feature 11) =
     Inr [\<lparr>minX = 0, minY = 0, maxX = 2, maxY = 2, index = 1, lineSegment = [(0, 2), (2, 0)]\<rparr>]"
  by (simp add: example_heap_def extractor_defs)

lemma example_load_2: "lineTree_load example_heap (Feature 12) = Inr []"
  by (simp add: example_heap_def extractor_defs)

lemma example_load_34:
  "lineTree_load example_heap (FeatureCollection [13, 14]) =
     Inr [\<lparr>minX = 0, minY = 0, maxX = 2, maxY = 2, index = 1, lineSegment = [(0, 0), (2, 2)]\<rparr>,
          \<lparr>minX = 2, minY = 0, maxX = 3, maxY = 2, index = 1, lineSegment = [(2, 2), (3, 0)]\<rparr>]"
  by (simp add: example_heap_def extractor_defs)

text \<open>
  Claim C4. For a LineString feature with \<open>N \<ge> 2\<close> vertices the extractor produces
  exactly \<open>N - 1\<close> entries, in source order; the \<open>i\<close>-th holds the segment
  \<open>(coords[i], coords[i+1])\<close> and the coordinate-wise minimum and maximum of its two
  endpoints as its bounding box, so that \<open>minX \<le> maxX\<close> and \<open>minY \<le> maxY\<close>.
\<close>

theorem lineString_segments:
  assumes "geometry (h a) = LineString coords" and "2 \<le> length coords"
  shows "\<exists>load. lineTree_load h (Feature a) = Inr load \<and> length load = length coords - 1 \<and>
     (\<forall>i < length coords - 1.
        lineSegment (load ! i) = [coords ! i, coords ! Suc i] \<and>
        minX (load ! i) = min (fst (coords ! i)) (fst (coords ! Suc i)) \<and>
        minY (load ! i) = min (snd (coords ! i)) (snd (coords ! Suc i)) \<and>
        maxX (load ! i) = max (fst (coords ! i)) (fst (coords ! Suc i)) \<and>
        maxY (load ! i) = max (snd (coords ! i)) (snd (coords ! Suc i)) \<and>
        minX (load ! i) \<le> maxX (load ! i) \<and> minY (load ! i) \<le> maxY (load ! i))"
proof (intro exI conjI allI impI)
  show "lineTree_load h (Feature a) = Inr (segments_of coords)"
    using assms(1) by (rule lineTree_load_LineString)
  show "length (segments_of coords) = length coords - 1"
    by (rule length_segments_of)
next
  fix i assume "i < length coords - 1"
  then have i: "Suc i < length coords" by simp
  note e = nth_segments_of [OF i]
  show "lineSegment (segments_of coords ! i) = [coords ! i, coords ! Suc i]"
    "minX (segments_of coords ! i) = min (fst (coords ! i)) (fst (coords ! Suc i))"
    "minY (segments_of coords ! i) = min (snd (coords ! i)) (snd (coords ! Suc i))"
    "maxX (segments_of coords ! i) = max (fst (coords ! i)) (fst (coords ! Suc i))"
    "maxY (segments_of coords ! i) = max (snd (coords ! i)) (snd (coords ! Suc i))"
    "minX (segments_of coords ! i) \<le> maxX (segments_of coords ! i)"
    "minY (segments_of coords ! i) \<le> maxY (segments_of coords ! i)"
    by (simp_all add: e)
qed

text \<open>The three-vertex line at address 10 gives two entries.\<close>

theorem lineString_segments_witness:
  "geometry (example_heap 10) = LineString [(0, 0), (2, 2), (3, 0)]
   \<and> 2 \<le> length [(0, 0), (2, 2), (3, 0) :: position]
   \<and> lineTree_load example_heap (Feature 10) =
     Inr [\<lparr>minX = 0, minY = 0, maxX = 2, maxY = 2, index = 1, lineSegment = [(0, 0), (2, 2)]\<rparr>,
          \<lparr>minX = 2, minY = 0, maxX = 3, maxY = 2, index = 2, lineSegment = [(2, 2), (3, 0)]\<rparr>]"
  using lineString_segments [of example_heap 10 "[(0, 0), (2, 2), (3, 0)]"] example_load_0
  by (simp add: example_heap_def)

section \<open>Properties of the pipeline\<close>

lemma arrangement_set: "arrangement pack \<Longrightarrow> set (pack load) = set load"
  by (metis arrangement_def mset_eq_setD)

lemma pair_callback_two_points:
  "two_points e1 \<Longrightarrow> two_points e2 \<Longrightarrow> pair_callback fl e1 e2 results = Inr (results @ point_of fl e1 e2)"
  by (auto simp: pair_callback_def point_of_def two_points_def intersects_def Let_def
      split: sum.splits option.splits)

lemma inner_loop:
  "two_points e1 \<Longrightarrow> \<forall>e \<in> set ys. two_points e \<Longrightarrow>
     forEach ys (pair_callback fl e1) results = Inr (results @ concat (map (point_of fl e1) ys))"
  by (rule forEach_append_state) (simp add: pair_callback_two_points)

lemma outer_loop:
  assumes "\<forall>e \<in> set (entries tree1). two_points e" and "\<forall>e \<in> set (entries tree2). two_points e"
  shows "forEach (rbush_all tree1) (tree_callback fl tree2) [] = Inr (pipeline_points fl tree1 tree2)"
proof -
  have "forEach (rbush_all tree1) (tree_callback fl tree2) []
      = Inr ([] @ concat (map (\<lambda>e1. concat (map (point_of fl e1) (rbush_search tree2 e1))) (rbush_all tree1)))"
    using assms
    by - (rule forEach_append_state, simp add: tree_callback_def inner_loop rbush_all_def rbush_search_def)
  then show ?thesis by (simp add: pipeline_points_def)
qed

lemma naive_loop:
  assumes "\<forall>e \<in> set load1. two_points e" and "\<forall>e \<in> set load2. two_points e"
  shows "naive_points fl load1 load2 = Inr (concat (map (\<lambda>e1. concat (map (point_of fl e1) load2)) load1))"
proof -
  have "forEach load1 (\<lambda>index1. forEach load2 (pair_callback fl index1)) []
      = Inr ([] @ concat (map (\<lambda>e1. concat (map (point_of fl e1) load2)) load1))"
    using assms by - (rule forEach_append_state, simp add: inner_loop)
  then show ?thesis by (simp add: naive_points_def)
qed

lemma lineIntersect_plain:
  assumes "arrangement pack"
  shows "lineIntersect fl pack h line1 line2 False =
     (h, if all_lines h line1 \<and> all_lines h line2
         then Inr (pipeline_points fl (RBush (pack (extracted h line1))) (RBush (pack (extracted h line2))))
         else Inl InvalidGeometryType)"
proof -
  have "\<forall>e \<in> set (entries (RBush (pack (extracted h line)))). two_points e" for line
    using assms by (simp add: arrangement_set two_points_extracted)
  then show ?thesis
    by (simp add: lineIntersect_def lineTree_eq outer_loop)
qed

lemma lineIntersect_plain_heap: "fst (lineIntersect fl pack h line1 line2 False) = h"
  by (simp add: lineIntersect_def split: sum.splits)

lemma paint_paint [simp]: "paint c (paint c' f) = paint c f"
  by (simp add: paint_def)

lemma geometry_paint [simp]: "geometry (paint c f) = geometry f"
  by (simp add: paint_def)

lemma properties_paint:
  "properties (paint color f) =
     (properties f)(''stroke'' \<mapsto> JString color, ''stroke-width'' \<mapsto> JNumber 6)"
  by (simp add: paint_def)

lemma color_callback_paint:
  "color_callback color a (h, results) = Inr (h(a := paint color (h a)), results @ [Shared a])"
  by (simp add: color_callback_def paint_def Let_def)

lemma forEach_color:
  "forEach as (color_callback color) (h, results) =
     Inr (paint_all color as h, results @ map Shared as)"
proof (induction as arbitrary: h results)
  case Nil
  then show ?case by (simp add: paint_all_def)
next
  case (Cons a as)
  have e: "paint_all color as (h(a := paint color (h a))) = paint_all color (a # as) h"
    by (rule ext) (simp add: paint_all_def)
  show ?case
    unfolding forEach.simps color_callback_paint sum.case Cons.IH e by simp
qed

lemma featureEach_color:
  "featureEach line (color_callback color) (h, results) =
     Inr (paint_all color (features_of line) h, results @ map Shared (features_of line))"
proof (cases line)
  case (Feature a)
  have "h(a := paint color (h a)) = paint_all color [a] h"
    by (rule ext) (simp add: paint_all_def)
  with Feature show ?thesis by (simp add: featureEach_def color_callback_paint)
next
  case (FeatureCollection as)
  then show ?thesis by (simp add: featureEach_def forEach_color)
next
  case (Wrapped c)
  have "paint_all color [] h = h"
    by (rule ext) (simp add: paint_all_def)
  with Wrapped show ?thesis by (simp add: featureEach_def)
qed

lemma lineIntersect_debug:
  "lineIntersect fl pack h line1 line2 True =
     (case snd (lineIntersect fl pack h line1 line2 False) of
        Inl e \<Rightarrow> (h, Inl e)
      | Inr points \<Rightarrow> (painted h line1 line2, Inr (points @ diagnostics pack h line1 line2)))"
  by (simp add: lineIntersect_def featureEach_color painted_def diagnostics_def tree_of_def Let_def
      split: sum.splits)

lemma lineIntersect_debug_Inr:
  assumes "lineIntersect fl pack h line1 line2 True = (h', Inr out)"
  shows "h' = painted h line1 line2"
    and "\<exists>points. out = points @ diagnostics pack h line1 line2"
  using assms by (auto simp: lineIntersect_debug split: sum.splits)

text \<open>The pipeline on the example inputs, in exact arithmetic.\<close>

lemmas pipeline_defs =
  lineIntersect_def lineTree_def rbush_load_def rbush_all_def rbush_search_def overlap_def
  tree_callback_def pair_callback_def intersects_def fsub_def fmul_def fdiv_def fadd_def Let_def
  createPolygonsFromTree_def bboxPolygon_def

lemma example_plain:
  "lineIntersect id id example_heap (Feature 10) (Feature 11) False = (example_heap, Inr [New (point (1, 1))])"
  by (simp add: pipeline_defs example_load_0 example_load_1)

lemma example_plain_2:
  "lineIntersect id id example_heap (Feature 12) (Feature 11) False = (example_heap, Inr [])"
  by (simp add: pipeline_defs example_load_2 example_load_1)

lemma example_plain_34:
  "lineIntersect id id example_heap (FeatureCollection [13, 14]) (Feature 11) False
     = (example_heap, Inr [New (point (1, 1))])"
  by (simp add: pipeline_defs example_load_34 example_load_1)

lemma example_naive:
  "naive_points id
     [\<lparr>minX = 0, minY = 0, maxX = 2, maxY = 2, index = 1, lineSegment = [(0, 0), (2, 2)]\<rparr>,
      \<lparr>minX = 2, minY = 0, maxX = 3, maxY = 2, index = 2, lineSegment = [(2, 2), (3, 0)]\<rparr>]
     [\<lparr>minX = 0, minY = 0, maxX = 2, maxY = 2, index = 1, lineSegment = [(0, 2), (2, 0)]\<rparr>]
   = Inr [New (point (1, 1))]"
  by (simp add: naive_points_def pair_callback_def intersects_def fsub_def fmul_def fdiv_def fadd_def Let_def)

lemma lineIntersect_succeeds:
  assumes "arrangement pack" and "all_lines h line1" and "all_lines h line2"
  shows "\<exists>out. snd (lineIntersect fl pack h line1 line2 debug) = Inr out"
proof (cases debug)
  case False
  then show ?thesis using assms by (simp add: lineIntersect_plain)
next
  case True
  then show ?thesis using assms by (simp add: lineIntersect_debug lineIntersect_plain)
qed

text \<open>
  Claim C5 does not hold of the source. The claim is that a MultiLineString feature is
  expanded into its parts and that the segments of the parts are extracted. The source
  hands \<^verbatim>\<open>featureEach\<close> the collection of the parts wrapped in a second collection, in
  which no feature is found: the MultiLineString at address 12 loads no segment and
  yields no intersection with the line at address 11, and no error is raised, while its
  two parts, given as the LineString features at the addresses 13 and 14, load two
  segments and yield the point \<open>(1, 1)\<close>.
\<close>

theorem multiLineString_loads_no_segment:
  "geometry (example_heap 12) = MultiLineString [[(0, 0), (2, 2)], [(2, 2), (3, 0)]]
   \<and> lineTree_load example_heap (Feature 12) = Inr []
   \<and> lineIntersect id id example_heap (Feature 12) (Feature 11) False = (example_heap, Inr [])
   \<and> lineTree_load example_heap (FeatureCollection [13, 14]) =
       Inr [\<lparr>minX = 0, minY = 0, maxX = 2, maxY = 2, index = 1, lineSegment = [(0, 0), (2, 2)]\<rparr>,
            \<lparr>minX = 2, minY = 0, maxX = 3, maxY = 2, index = 1, lineSegment = [(2, 2), (3, 0)]\<rparr>]
   \<and> lineIntersect id id example_heap (FeatureCollection [13, 14]) (Feature 11) False
       = (example_heap, Inr [New (point (1, 1))])"
  using example_load_2 example_plain_2 example_load_34 example_plain_34
  by (simp add: example_heap_def)

lemma leaves_not_line:
  assumes "leaf \<in> set (leaves f)" and "\<not> is_LineString (geometry leaf)"
  shows "parts_of (geometry f) = None"
  using assms by (cases "geometry f") (auto simp: leaves_def flatten_def)

lemma lineIntersect_bad_geometry:
  assumes "\<not> all_lines h line1 \<or> \<not> all_lines h line2"
  shows "lineIntersect fl pack h line1 line2 debug = (h, Inl InvalidGeometryType)"
  using assms by (auto simp: lineIntersect_def lineTree_eq)

text \<open>
  Claim C6. If some feature of either input has, after flattening, a leaf whose geometry
  is not a LineString, the call fails with \<open>InvalidGeometryType\<close>: no collection is
  returned, with or without the diagnostic mode, and the heap is as before.
\<close>

theorem non_lineString_leaf_fails:
  assumes "a \<in> set (features_of line1) \<union> set (features_of line2)"
    and "leaf \<in> set (leaves (h a))" and "\<not> is_LineString (geometry leaf)"
  shows "lineIntersect fl pack h line1 line2 debug = (h, Inl InvalidGeometryType)"
proof -
  have "parts_of (geometry (h a)) = None"
    using assms(2,3) by (rule leaves_not_line)
  with assms(1) have "\<not> all_lines h line1 \<or> \<not> all_lines h line2"
    by (auto simp: all_lines_def)
  then show ?thesis by (rule lineIntersect_bad_geometry)
qed

text \<open>A Point feature, at address 15, as the last feature of the second input.\<close>

theorem non_lineString_leaf_fails_witness:
  "15 \<in> set (features_of (Feature 10)) \<union> set (features_of (FeatureCollection [11, 15]))
   \<and> example_heap 15 \<in> set (leaves (example_heap 15))
   \<and> \<not> is_LineString (geometry (example_heap 15))
   \<and> lineIntersect id id example_heap (Feature 10) (FeatureCollection [11, 15]) True
       = (example_heap, Inl InvalidGeometryType)"
  using non_lineString_leaf_fails [of 15 "Feature 10" "FeatureCollection [11, 15]"
      "example_heap 15" example_heap id id True]
  by (simp add: example_heap_def leaves_def)

lemma lineIntersect_error_kind:
  assumes "arrangement pack"
  shows "snd (lineIntersect fl pack h line1 line2 debug) \<noteq> Inl (InvalidSegmentLength w)"
proof (cases debug)
  case False
  then show ?thesis using assms by (simp add: lineIntersect_plain)
next
  case True
  then show ?thesis using assms by (simp add: lineIntersect_debug lineIntersect_plain)
qed

text \<open>
  Claim C7. The exact test fails if and only if one of its two segments does not have
  exactly two points, and then with \<open>InvalidSegmentLength\<close>; every entry the extractor
  produces holds a segment of exactly two points, so the top-level operation never
  fails with \<open>InvalidSegmentLength\<close>.
\<close>

theorem segment_length_error_unreachable:
  "((\<exists>e. intersects fl seg1 seg2 = Inl e) \<longleftrightarrow> (length seg1 \<noteq> 2 \<or> length seg2 \<noteq> 2))
   \<and> (\<forall>e. intersects fl seg1 seg2 = Inl e \<longrightarrow> (\<exists>w. e = InvalidSegmentLength w))
   \<and> (\<forall>load. lineTree_load h line1 = Inr load \<longrightarrow> (\<forall>entry \<in> set load. length (lineSegment entry) = 2))
   \<and> (arrangement pack \<longrightarrow>
        (\<forall>w. snd (lineIntersect fl pack h line1 line2 debug) \<noteq> Inl (InvalidSegmentLength w)))"
proof (intro conjI allI impI ballI)
  show "(\<exists>e. intersects fl seg1 seg2 = Inl e) \<longleftrightarrow> (length seg1 \<noteq> 2 \<or> length seg2 \<noteq> 2)"
    by (rule intersects_error_iff)
next
  fix e assume "intersects fl seg1 seg2 = Inl e"
  then show "\<exists>w. e = InvalidSegmentLength w" by (rule intersects_error_kind)
next
  fix load entry assume "lineTree_load h line1 = Inr load" and "entry \<in> set load"
  then have "entry \<in> set (extracted h line1)"
    by (simp add: lineTree_load_eq split: if_splits)
  then show "length (lineSegment entry) = 2"
    using two_points_extracted by (simp add: two_points_def)
next
  fix w assume "arrangement pack"
  then show "snd (lineIntersect fl pack h line1 line2 debug) \<noteq> Inl (InvalidSegmentLength w)"
    by (rule lineIntersect_error_kind)
qed

text \<open>A one-point segment given to the exact test, and a call of the whole operation.\<close>

theorem segment_length_error_unreachable_witness:
  "intersects id [(0, 0)] [(0, 0), (1, 1)] = Inl (InvalidSegmentLength Line1)
   \<and> length [(0, 0) :: position] \<noteq> 2
   \<and> arrangement id
   \<and> lineTree_load example_heap (Feature 11) =
       Inr [\<lparr>minX = 0, minY = 0, maxX = 2, maxY = 2, index = 1, lineSegment = [(0, 2), (2, 0)]\<rparr>]
   \<and> snd (lineIntersect id id example_heap (Feature 11) (Feature 10) False)
       \<noteq> Inl (InvalidSegmentLength Line1)"
  using segment_length_error_unreachable [of id "[(0, 0)]" "[(0, 0), (1, 1)]" example_heap
      "Feature 11" id "Feature 10" False]
    example_load_1
  by (simp add: intersects_def arrangement_def)

subsection \<open>The broad phase\<close>

lemma convex_bounds:
  fixes a b u :: rat
  assumes "in_unit u"
  shows "min a b \<le> a + u * (b - a)" and "a + u * (b - a) \<le> max a b"
proof -
  from assms have u: "0 \<le> u" "u \<le> 1" by (simp_all add: in_unit_def)
  show "min a b \<le> a + u * (b - a)"
  proof (cases "a \<le> b")
    case True
    then have "0 \<le> u * (b - a)" using u by simp
    with True show ?thesis by simp
  next
    case False
    then have "(1 - u) * (a - b) \<ge> 0" using u by simp
    then have "b \<le> a + u * (b - a)" by (simp add: algebra_simps)
    with False show ?thesis by simp
  qed
  show "a + u * (b - a) \<le> max a b"
  proof (cases "a \<le> b")
    case True
    then have "(1 - u) * (b - a) \<ge> 0" using u by simp
    then have "a + u * (b - a) \<le> b" by (simp add: algebra_simps)
    with True show ?thesis by simp
  next
    case False
    then have "u * (a - b) \<ge> 0" using u by simp
    then have "a + u * (b - a) \<le> a" by (simp add: algebra_simps)
    with False show ?thesis by simp
  qed
qed

lemma meets_overlap:
  assumes "meets [p1, p2] [p3, p4]"
  shows "overlap (entry_of p1 p2 i) (entry_of p3 p4 j)"
proof -
  from assms obtain u v where u: "in_unit u" and v: "in_unit v"
    and x: "fst p1 + u * (fst p2 - fst p1) = fst p3 + v * (fst p4 - fst p3)"
    and y: "snd p1 + u * (snd p2 - snd p1) = snd p3 + v * (snd p4 - snd p3)"
    by (auto simp: meets_def along_def)
  note bx1 = convex_bounds [OF u, of "fst p1" "fst p2"]
  note bx2 = convex_bounds [OF v, of "fst p3" "fst p4"]
  note by1 = convex_bounds [OF u, of "snd p1" "snd p2"]
  note by2 = convex_bounds [OF v, of "snd p3" "snd p4"]
  have "min (fst p1) (fst p2) \<le> max (fst p3) (fst p4)"
    using bx1(1) bx2(2) x by linarith
  moreover have "min (fst p3) (fst p4) \<le> max (fst p1) (fst p2)"
    using bx1(2) bx2(1) x by linarith
  moreover have "min (snd p1) (snd p2) \<le> max (snd p3) (snd p4)"
    using by1(1) by2(2) y by linarith
  moreover have "min (snd p3) (snd p4) \<le> max (snd p1) (snd p2)"
    using by1(2) by2(1) y by linarith
  ultimately show ?thesis by (simp add: overlap_def)
qed

lemma exact_hit_meets:
  assumes "intersects id [p1, p2] [p3, p4] = Inr (Some pt)"
  shows "meets [p1, p2] [p3, p4]"
proof -
  define d where "d = spec_denom id p1 p2 p3 p4"
  define u where "u = spec_uA id p1 p2 p3 p4"
  define v where "v = spec_uB id p1 p2 p3 p4"
  from assms have d: "d \<noteq> 0" and iu: "in_unit u" "in_unit v"
    by (auto simp: intersects_two_points d_def u_def v_def split: if_splits)
  have ud: "u * d = spec_numeA id p1 p2 p3 p4" and vd: "v * d = spec_numeB id p1 p2 p3 p4"
    using d by (simp_all add: u_def v_def spec_uA_def spec_uB_def d_def)
  have "(fst p1 + u * (fst p2 - fst p1)) * d = (fst p3 + v * (fst p4 - fst p3)) * d"
  proof -
    have "(fst p1 + u * (fst p2 - fst p1)) * d = fst p1 * d + (u * d) * (fst p2 - fst p1)"
      by (simp add: algebra_simps)
    also have "\<dots> = fst p3 * d + (v * d) * (fst p4 - fst p3)"
      unfolding ud vd by (simp add: d_def spec_denom_def spec_numeA_def spec_numeB_def algebra_simps)
    also have "\<dots> = (fst p3 + v * (fst p4 - fst p3)) * d"
      by (simp add: algebra_simps)
    finally show ?thesis .
  qed
  then have x: "fst p1 + u * (fst p2 - fst p1) = fst p3 + v * (fst p4 - fst p3)"
    using d by simp
  have "(snd p1 + u * (snd p2 - snd p1)) * d = (snd p3 + v * (snd p4 - snd p3)) * d"
  proof -
    have "(snd p1 + u * (snd p2 - snd p1)) * d = snd p1 * d + (u * d) * (snd p2 - snd p1)"
      by (simp add: algebra_simps)
    also have "\<dots> = snd p3 * d + (v * d) * (snd p4 - snd p3)"
      unfolding ud vd by (simp add: d_def spec_denom_def spec_numeA_def spec_numeB_def algebra_simps)
    also have "\<dots> = (snd p3 + v * (snd p4 - snd p3)) * d"
      by (simp add: algebra_simps)
    finally show ?thesis .
  qed
  then have y: "snd p1 + u * (snd p2 - snd p1) = snd p3 + v * (snd p4 - snd p3)"
    using d by simp
  show ?thesis
    unfolding meets_def along_def using iu x y by auto
qed

lemma set_point_of:
  "set (point_of fl e1 e2) = {New p | p. intersects fl (lineSegment e1) (lineSegment e2) = Inr (Some p)}"
  by (auto simp: point_of_def split: sum.splits option.splits)

lemma set_pipeline_points:
  "set (pipeline_points fl (RBush xs) (RBush ys)) =
     {New p | p e1 e2. e1 \<in> set xs \<and> e2 \<in> set ys \<and> overlap e1 e2
        \<and> intersects fl (lineSegment e1) (lineSegment e2) = Inr (Some p)}"
  by (auto simp: pipeline_points_def rbush_all_def rbush_search_def set_point_of)

lemma set_naive_points:
  "set (concat (map (\<lambda>e1. concat (map (point_of fl e1) ys)) xs)) =
     {New p | p e1 e2. e1 \<in> set xs \<and> e2 \<in> set ys
        \<and> intersects fl (lineSegment e1) (lineSegment e2) = Inr (Some p)}"
  by (auto simp: set_point_of)

lemma set_candidates:
  "set (candidates (RBush xs) (RBush ys)) = {(e1, e2). e1 \<in> set xs \<and> e2 \<in> set ys \<and> overlap e1 e2}"
  by (auto simp: candidates_def rbush_all_def rbush_search_def)

lemma exact_hit_overlap:
  assumes "e1 \<in> set (extracted h line1)" and "e2 \<in> set (extracted h line2)"
    and "intersects id (lineSegment e1) (lineSegment e2) = Inr (Some pt)"
  shows "overlap e1 e2"
proof -
  from assms(1) obtain p1 p2 i where e1: "e1 = entry_of p1 p2 i"
    using extracted_shape by blast
  from assms(2) obtain p3 p4 j where e2: "e2 = entry_of p3 p4 j"
    using extracted_shape by blast
  from assms(3) have "meets [p1, p2] [p3, p4]"
    unfolding e1 e2 entry_of_sel by (rule exact_hit_meets)
  then show ?thesis unfolding e1 e2 by (rule meets_overlap)
qed

text \<open>
  Claim C2, as amended. Every pair of extracted segments that share a point is among the
  candidate pairs of the two-phase pipeline. The points that \<open>lineIntersect\<close> returns
  are those the naive double loop computes from the pairs whose bounding boxes overlap;
  they are among the points of the naive loop in every arithmetic, and in exact
  arithmetic the two sets are equal.
\<close>

theorem broad_phase_complete:
  assumes "arrangement pack"
    and "lineTree_load h line1 = Inr load1" and "lineTree_load h line2 = Inr load2"
  shows "(\<forall>e1 \<in> set load1. \<forall>e2 \<in> set load2.
            meets (lineSegment e1) (lineSegment e2) \<longrightarrow>
            (e1, e2) \<in> set (candidates (rbush_load pack load1) (rbush_load pack load2)))
       \<and> (\<exists>points all_points.
            lineIntersect fl pack h line1 line2 False = (h, Inr points)
          \<and> naive_points fl load1 load2 = Inr all_points
          \<and> set points = {New p | p e1 e2. e1 \<in> set load1 \<and> e2 \<in> set load2 \<and> overlap e1 e2
                \<and> intersects fl (lineSegment e1) (lineSegment e2) = Inr (Some p)}
          \<and> set points \<subseteq> set all_points
          \<and> (fl = id \<longrightarrow> set points = set all_points))"
proof -
  from assms(2) have a1: "all_lines h line1" and l1: "load1 = extracted h line1"
    by (simp_all add: lineTree_load_eq split: if_splits)
  from assms(3) have a2: "all_lines h line2" and l2: "load2 = extracted h line2"
    by (simp_all add: lineTree_load_eq split: if_splits)
  note ps = arrangement_set [OF assms(1)]
  have "(e1, e2) \<in> set (candidates (rbush_load pack load1) (rbush_load pack load2))"
    if "e1 \<in> set load1" "e2 \<in> set load2" "meets (lineSegment e1) (lineSegment e2)" for e1 e2
  proof -
    from that(1) obtain p1 p2 i where e1: "e1 = entry_of p1 p2 i"
      unfolding l1 using extracted_shape by blast
    from that(2) obtain p3 p4 j where e2: "e2 = entry_of p3 p4 j"
      unfolding l2 using extracted_shape by blast
    from that(3) have "overlap e1 e2"
      unfolding e1 e2 entry_of_sel by (rule meets_overlap)
    with that(1,2) show ?thesis
      by (simp add: rbush_load_def set_candidates ps)
  qed
  moreover
  define points where "points = pipeline_points fl (RBush (pack load1)) (RBush (pack load2))"
  define all_points where "all_points = concat (map (\<lambda>e1. concat (map (point_of fl e1) load2)) load1)"
  have run: "lineIntersect fl pack h line1 line2 False = (h, Inr points)"
    using a1 a2 by (simp add: lineIntersect_plain [OF assms(1)] points_def l1 l2)
  have naive: "naive_points fl load1 load2 = Inr all_points"
    unfolding all_points_def
    by (rule naive_loop) (simp_all add: l1 l2 two_points_extracted)
  have sp: "set points = {New p | p e1 e2. e1 \<in> set load1 \<and> e2 \<in> set load2 \<and> overlap e1 e2
                \<and> intersects fl (lineSegment e1) (lineSegment e2) = Inr (Some p)}"
    by (simp add: points_def set_pipeline_points ps)
  have sa: "set all_points = {New p | p e1 e2. e1 \<in> set load1 \<and> e2 \<in> set load2
                \<and> intersects fl (lineSegment e1) (lineSegment e2) = Inr (Some p)}"
    unfolding all_points_def by (rule set_naive_points)
  have sub: "set points \<subseteq> set all_points"
    unfolding sp sa by blast
  have "set points = set all_points" if "fl = id"
  proof
    show "set points \<subseteq> set all_points" by (rule sub)
    show "set all_points \<subseteq> set points"
      unfolding sp sa using exact_hit_overlap [of _ h line1 _ line2] that l1 l2 by blast
  qed
  ultimately show ?thesis
    using run naive sp sub by blast
qed

text \<open>
  The lines at the addresses 10 and 11: the first segment of the one meets the other at
  \<open>(1, 1)\<close>, and the pipeline and the naive loop both return that point.
\<close>

theorem broad_phase_complete_witness:
  "arrangement id
   \<and> lineTree_load example_heap (Feature 10) =
       Inr [\<lparr>minX = 0, minY = 0, maxX = 2, maxY = 2, index = 1, lineSegment = [(0, 0), (2, 2)]\<rparr>,
            \<lparr>minX = 2, minY = 0, maxX = 3, maxY = 2, index = 2, lineSegment = [(2, 2), (3, 0)]\<rparr>]
   \<and> lineTree_load example_heap (Feature 11) =
       Inr [\<lparr>minX = 0, minY = 0, maxX = 2, maxY = 2, index = 1, lineSegment = [(0, 2), (2, 0)]\<rparr>]
   \<and> meets [(0, 0), (2, 2)] [(0, 2), (2, 0)]
   \<and> lineIntersect id id example_heap (Feature 10) (Feature 11) False
       = (example_heap, Inr [New (point (1, 1))])
   \<and> naive_points id
       [\<lparr>minX = 0, minY = 0, maxX = 2, maxY = 2, index = 1, lineSegment = [(0, 0), (2, 2)]\<rparr>,
        \<lparr>minX = 2, minY = 0, maxX = 3, maxY = 2, index = 2, lineSegment = [(2, 2), (3, 0)]\<rparr>]
       [\<lparr>minX = 0, minY = 0, maxX = 2, maxY = 2, index = 1, lineSegment = [(0, 2), (2, 0)]\<rparr>]
       = Inr [New (point (1, 1))]"
proof -
  have a: "arrangement id" by (simp add: arrangement_def)
  have m: "meets [(0, 0), (2, 2)] [(0, 2), (2, 0)]"
    unfolding meets_def
    by (intro exI [of _ "1 / 2"]) (simp add: along_def in_unit_def)
  show ?thesis
    using broad_phase_complete [OF a example_load_0 example_load_1, of id]
      a m example_load_0 example_load_1 example_plain example_naive
    by simp
qed

text \<open>
  With binary64 rounding the claim C2 fails as stated. The segment from \<open>(1/2, -1)\<close> to
  \<open>(1/2, -2^-60)\<close> ends just below the segment from \<open>(0, 0)\<close> to \<open>(1, 0)\<close>: the two do not
  meet, their bounding boxes do not overlap, and the pipeline never tests the pair. The
  exact test rounds \<open>-2^-60 - (-1)\<close> to 1, finds \<open>uA = 1/2\<close> and \<open>uB = 1\<close>, and the naive
  loop reports the point \<open>(1/2, 0)\<close>.
\<close>

lemma grazing_roundings_1:
  "binary64 ((- (1 / 2 ^ 60)) - (- 1)) = 1"
  "binary64 (1 - 0) = 1"
  "binary64 (1 * 1) = 1"
  "binary64 ((1 / 2) - (1 / 2)) = 0"
  "binary64 (0 - 0) = 0"
  "binary64 (0 * 0) = 0"
  "binary64 (0 - (- 1)) = 1"
  "binary64 (0 * 1) = 0"
  "binary64 (0 - (1 / 2)) = (- (1 / 2))"
  by code_simp+

lemma grazing_roundings_2:
  "binary64 (1 * (- (1 / 2))) = (- (1 / 2))"
  "binary64 (0 - (- (1 / 2))) = (1 / 2)"
  "binary64 (0 * (- (1 / 2))) = 0"
  "binary64 ((1 / 2) / 1) = (1 / 2)"
  "binary64 (1 / 1) = 1"
  "binary64 ((1 / 2) * 1) = (1 / 2)"
  "binary64 (0 + (1 / 2)) = (1 / 2)"
  "binary64 ((1 / 2) * 0) = 0"
  "binary64 (0 + 0) = 0"
  by code_simp+

lemmas grazing_roundings = grazing_roundings_1 grazing_roundings_2

lemma grazing_quantities:
  "spec_denom binary64 (0, 0) (1, 0) (1 / 2, - 1) (1 / 2, - (1 / 2 ^ 60)) = 1"
  "spec_uA binary64 (0, 0) (1, 0) (1 / 2, - 1) (1 / 2, - (1 / 2 ^ 60)) = 1 / 2"
  "spec_uB binary64 (0, 0) (1, 0) (1 / 2, - 1) (1 / 2, - (1 / 2 ^ 60)) = 1"
  "spec_point binary64 (0, 0) (1, 0) (1 / 2) = (1 / 2, 0)"
  unfolding spec_uA_def spec_uB_def spec_denom_def spec_numeA_def spec_numeB_def spec_point_def
    fst_conv snd_conv
  by (simp_all only: grazing_roundings)

lemma grazing_intersects:
  "intersects binary64 [(0, 0), (1, 0)] [(1 / 2, - 1), (1 / 2, - (1 / 2 ^ 60))]
     = Inr (Some (point (1 / 2, 0)))"
  unfolding intersects_two_points grazing_quantities by (simp add: in_unit_def)

text \<open>
  Counterexample to claim C2 as stated: \<open>lineIntersect\<close> returns no point where the naive
  double loop over the same segments returns one.
\<close>

theorem naive_loop_differs_under_rounding:
  "lineTree_load example_heap (Feature 20) =
       Inr [\<lparr>minX = 0, minY = 0, maxX = 1, maxY = 0, index = 1, lineSegment = [(0, 0), (1, 0)]\<rparr>]
   \<and> lineTree_load example_heap (Feature 21) =
       Inr [\<lparr>minX = 1 / 2, minY = - 1, maxX = 1 / 2, maxY = - (1 / 2 ^ 60), index = 1,
             lineSegment = [(1 / 2, - 1), (1 / 2, - (1 / 2 ^ 60))]\<rparr>]
   \<and> lineIntersect binary64 id example_heap (Feature 20) (Feature 21) False = (example_heap, Inr [])
   \<and> naive_points binary64
       [\<lparr>minX = 0, minY = 0, maxX = 1, maxY = 0, index = 1, lineSegment = [(0, 0), (1, 0)]\<rparr>]
       [\<lparr>minX = 1 / 2, minY = - 1, maxX = 1 / 2, maxY = - (1 / 2 ^ 60), index = 1,
          lineSegment = [(1 / 2, - 1), (1 / 2, - (1 / 2 ^ 60))]\<rparr>]
       = Inr [New (point (1 / 2, 0))]"
proof -
  have l1: "lineTree_load example_heap (Feature 20) =
       Inr [\<lparr>minX = 0, minY = 0, maxX = 1, maxY = 0, index = 1, lineSegment = [(0, 0), (1, 0)]\<rparr>]"
    by (simp add: example_heap_def extractor_defs)
  have l2: "lineTree_load example_heap (Feature 21) =
       Inr [\<lparr>minX = 1 / 2, minY = - 1, maxX = 1 / 2, maxY = - (1 / 2 ^ 60), index = 1,
             lineSegment = [(1 / 2, - 1), (1 / 2, - (1 / 2 ^ 60))]\<rparr>]"
    by (simp add: example_heap_def extractor_defs)
  have r: "lineIntersect binary64 id example_heap (Feature 20) (Feature 21) False = (example_heap, Inr [])"
    by (simp add: lineIntersect_def lineTree_def rbush_load_def rbush_all_def rbush_search_def
        overlap_def tree_callback_def l1 l2)
  have n: "naive_points binary64
       [\<lparr>minX = 0, minY = 0, maxX = 1, maxY = 0, index = 1, lineSegment = [(0, 0), (1, 0)]\<rparr>]
       [\<lparr>minX = 1 / 2, minY = - 1, maxX = 1 / 2, maxY = - (1 / 2 ^ 60), index = 1,
          lineSegment = [(1 / 2, - 1), (1 / 2, - (1 / 2 ^ 60))]\<rparr>]
       = Inr [New (point (1 / 2, 0))]"
    by (simp only: naive_points_def forEach.simps pair_callback_def Let_def
        index_entry.select_convs grazing_intersects sum.case option.case append_Nil)
  show ?thesis using l1 l2 r n by simp
qed

section \<open>Properties of the diagnostic mode\<close>







lemma geometry_painted [simp]: "geometry (painted h line1 line2 a) = geometry (h a)"
  by (simp add: painted_def paint_all_def)

lemma painted_painted: "painted (painted h line1 line2) line1 line2 = painted h line1 line2"
  by (rule ext) (simp add: painted_def paint_all_def)

lemma lineTree_load_geometry:
  assumes "\<And>a. geometry (h' a) = geometry (h a)"
  shows "lineTree_load h' line = lineTree_load h line"
  by (simp add: lineTree_load_eq all_lines_def extracted_def feature_segments_def assms)

lemma lineTree_geometry:
  assumes "\<And>a. geometry (h' a) = geometry (h a)"
  shows "lineTree pack h' line = lineTree pack h line"
  by (simp add: lineTree_def lineTree_load_geometry [OF assms])

lemma lineIntersect_plain_geometry:
  assumes "\<And>a. geometry (h' a) = geometry (h a)"
  shows "snd (lineIntersect fl pack h' line1 line2 False) = snd (lineIntersect fl pack h line1 line2 False)"
  by (simp add: lineIntersect_def lineTree_geometry [OF assms] split: sum.splits)

lemma diagnostics_geometry:
  assumes "\<And>a. geometry (h' a) = geometry (h a)"
  shows "diagnostics pack h' line1 line2 = diagnostics pack h line1 line2"
  by (simp add: diagnostics_def tree_of_def lineTree_geometry [OF assms])

text \<open>
  Claim C9. Repeating a call with the same arguments on the heap that the first call
  left gives the same result once more and leaves that heap as it is.
\<close>

theorem lineIntersect_repeatable:
  assumes "lineIntersect fl pack h line1 line2 debug = (h1, out)"
  shows "lineIntersect fl pack h1 line1 line2 debug = (h1, out)"
proof (cases debug)
  case False
  with assms have h1: "h1 = h"
    using lineIntersect_plain_heap [of fl pack h line1 line2] by simp
  with assms show ?thesis by simp
next
  case True
  show ?thesis
  proof (cases "snd (lineIntersect fl pack h line1 line2 False)")
    case (Inl e)
    with assms True have "h1 = h" by (simp add: lineIntersect_debug)
    with assms show ?thesis by simp
  next
    case (Inr points)
    with assms True have h1: "h1 = painted h line1 line2"
      and out: "out = Inr (points @ diagnostics pack h line1 line2)"
      by (simp_all add: lineIntersect_debug)
    have g: "\<And>a. geometry (h1 a) = geometry (h a)" by (simp add: h1)
    show ?thesis
      using True Inr
      by (simp add: lineIntersect_debug lineIntersect_plain_geometry [OF g]
          diagnostics_geometry [OF g] out) (simp add: h1 painted_painted)
  qed
qed

text \<open>
  A first call in diagnostic mode changes the heap; the second call on that heap returns
  the same result and heap.
\<close>

theorem lineIntersect_repeatable_witness:
  "lineIntersect id id (fst (lineIntersect id id example_heap (Feature 10) (Feature 11) True))
       (Feature 10) (Feature 11) True
     = lineIntersect id id example_heap (Feature 10) (Feature 11) True
   \<and> properties (fst (lineIntersect id id example_heap (Feature 10) (Feature 11) True) 10) ''stroke''
       = Some (JString ''#f00'')
   \<and> properties (example_heap 10) ''stroke'' = None"
proof -
  have r: "lineIntersect id id example_heap (Feature 10) (Feature 11) True =
      (fst (lineIntersect id id example_heap (Feature 10) (Feature 11) True),
       snd (lineIntersect id id example_heap (Feature 10) (Feature 11) True))"
    by simp
  have p: "fst (lineIntersect id id example_heap (Feature 10) (Feature 11) True)
      = painted example_heap (Feature 10) (Feature 11)"
    by (simp add: lineIntersect_debug example_plain)
  have "properties (painted example_heap (Feature 10) (Feature 11) 10) ''stroke'' = Some (JString ''#f00'')"
    by (simp add: painted_def paint_all_def paint_def)
  moreover have "properties (example_heap 10) ''stroke'' = None"
    by (simp add: example_heap_def)
  ultimately show ?thesis
    using lineIntersect_repeatable [OF r] p by (simp add: prod_eq_iff)
qed

text \<open>
  Claim C10. A call in diagnostic mode that returns has written \<^verbatim>\<open>stroke\<close> and
  \<^verbatim>\<open>stroke-width\<close> into the properties of every feature of both inputs (the colour of
  the second input wins for a feature that is in both), has changed nothing else on the
  heap, and its collection ends with the addresses of those very features.
\<close>

theorem debug_mutates_inputs:
  assumes "lineIntersect fl pack h line1 line2 True = (h', Inr out)"
  shows "(\<forall>a \<in> set (features_of line1) \<union> set (features_of line2).
            properties (h' a) ''stroke'' =
              Some (JString (if a \<in> set (features_of line2) then ''#00f'' else ''#f00''))
            \<and> properties (h' a) ''stroke-width'' = Some (JNumber 6))
     \<and> (\<exists>before. out = before @ map Shared (features_of line1) @ map Shared (features_of line2))
     \<and> (\<forall>a. geometry (h' a) = geometry (h a))
     \<and> (\<forall>a key. key \<noteq> ''stroke'' \<and> key \<noteq> ''stroke-width'' \<longrightarrow>
            properties (h' a) key = properties (h a) key)
     \<and> (\<forall>a. a \<notin> set (features_of line1) \<union> set (features_of line2) \<longrightarrow> h' a = h a)"
proof -
  note h' = lineIntersect_debug_Inr(1) [OF assms]
  from lineIntersect_debug_Inr(2) [OF assms] obtain points
    where out: "out = points @ diagnostics pack h line1 line2" ..
  have "\<exists>before. out = before @ map Shared (features_of line1) @ map Shared (features_of line2)"
    unfolding out diagnostics_def
    by (intro exI [of _ "points @ map New (createPolygonsFromTree (tree_of pack h line1))
          @ map New (createPolygonsFromTree (tree_of pack h line2))"]) simp
  then show ?thesis
    by (auto simp: h' painted_def paint_all_def properties_paint)
qed

text \<open>
  After the call the feature at address 10 is red and the one at address 11 is blue; the
  first had no \<^verbatim>\<open>stroke\<close> property before.
\<close>

theorem debug_mutates_inputs_witness:
  "lineIntersect id id example_heap (Feature 10) (Feature 11) True
     = (painted example_heap (Feature 10) (Feature 11),
        Inr [New (point (1, 1)),
             New (bboxPolygon (0, 0, 2, 2)), New (bboxPolygon (2, 0, 3, 2)),
             New (bboxPolygon (0, 0, 2, 2)), Shared 10, Shared 11])
   \<and> properties (painted example_heap (Feature 10) (Feature 11) 10) ''stroke'' = Some (JString ''#f00'')
   \<and> properties (painted example_heap (Feature 10) (Feature 11) 11) ''stroke'' = Some (JString ''#00f'')
   \<and> properties (painted example_heap (Feature 10) (Feature 11) 11) ''stroke-width'' = Some (JNumber 6)
   \<and> properties (example_heap 10) ''stroke'' = None"
proof -
  have r: "lineIntersect id id example_heap (Feature 10) (Feature 11) True
     = (painted example_heap (Feature 10) (Feature 11),
        Inr [New (point (1, 1)),
             New (bboxPolygon (0, 0, 2, 2)), New (bboxPolygon (2, 0, 3, 2)),
             New (bboxPolygon (0, 0, 2, 2)), Shared 10, Shared 11])"
    by (simp add: lineIntersect_debug example_plain diagnostics_def tree_of_def lineTree_def
        example_load_0 example_load_1 rbush_load_def rbush_all_def createPolygonsFromTree_def)
  have "properties (example_heap 10) ''stroke'' = None"
    by (simp add: example_heap_def)
  then show ?thesis
    using debug_mutates_inputs [OF r] r by simp
qed

end
